theory Spec2Isabelle
  imports Main "HOL-Library.Char_ord" "HOL-Library.List_Lexorder"
begin

section \<open>Python values and library functions used by the processors\<close>

text \<open>
  The three processors (\<^verbatim>\<open>DownloadMacOS\<close>, \<^verbatim>\<open>macOSDownloader\<close>,
  \<^verbatim>\<open>macOSReleaseProvider\<close>) are Python classes that drive external tools.
  A Python \<^verbatim>\<open>str\<close> is modelled as a \<open>string\<close>, one \<open>char\<close> per code point
  (code points below 256), an exception as a value of \<open>error\<close>, and a function that may
  raise as a function into \<open>error + 'a\<close>.
\<close>

datatype error =
    ProcessorError string
  | IndexError
  | ValueError
  | KeyError
  | UnicodeDecodeError
  | CalledProcessError
  | OSError
  | AttributeError

text \<open>\<^verbatim>\<open>str.split(sep)\<close> for a one-character separator: never an empty list.\<close>

fun py_split :: "char \<Rightarrow> string \<Rightarrow> string list" where
  "py_split c [] = [[]]"
| "py_split c (x # xs) =
     (if x = c then [] # py_split c xs
      else (case py_split c xs of
              [] \<Rightarrow> [[x]]
            | y # ys \<Rightarrow> (x # y) # ys))"

text \<open>\<^verbatim>\<open>sub in s\<close> on strings: \<open>sub\<close> occurs as a contiguous part of \<open>s\<close>.\<close>

fun py_in :: "string \<Rightarrow> string \<Rightarrow> bool" where
  "py_in sub [] = (sub = [])"
| "py_in sub (x # xs) = (take (length sub) (x # xs) = sub \<or> py_in sub xs)"

text \<open>\<^verbatim>\<open>str.isspace\<close> on one character, for the code points below 256.\<close>

definition py_isspace :: "char \<Rightarrow> bool" where
  "py_isspace c = (of_char c \<in> {9, 10, 11, 12, 13, 28, 29, 30, 31, 32, 133, 160 :: nat})"

definition py_strip :: "string \<Rightarrow> string" where
  "py_strip s = rev (dropWhile py_isspace (rev (dropWhile py_isspace s)))"

text \<open>\<^verbatim>\<open>s.rstrip('K')\<close>.\<close>

definition py_rstrip :: "char \<Rightarrow> string \<Rightarrow> string" where
  "py_rstrip c s = rev (dropWhile (\<lambda>x. x = c) (rev s))"

definition is_digit :: "char \<Rightarrow> bool" where
  "is_digit c = (48 \<le> (of_char c :: nat) \<and> (of_char c :: nat) \<le> 57)"

text \<open>
  The digits of \<^verbatim>\<open>int(s)\<close>: groups of decimal digits, a single underscore allowed
  between two digits. \<open>prev\<close> says that the character before was a digit.
\<close>

fun py_digits :: "nat \<Rightarrow> bool \<Rightarrow> string \<Rightarrow> nat option" where
  "py_digits acc prev [] = (if prev then Some acc else None)"
| "py_digits acc prev (c # cs) =
     (if is_digit c then py_digits (10 * acc + (of_char c - 48)) True cs
      else if c = CHR ''_'' \<and> prev then py_digits acc False cs
      else None)"

text \<open>
  \<^verbatim>\<open>int(s)\<close> on a string: surrounding whitespace is dropped, one sign is allowed,
  anything else raises \<^verbatim>\<open>ValueError\<close>. The whitespace that CPython's \<^verbatim>\<open>int\<close> skips
  is the whitespace of C below 127 (the separators 28 to 31 are not in it) and the
  Unicode spaces above.
\<close>

definition py_int_space :: "char \<Rightarrow> bool" where
  "py_int_space c = (of_char c \<in> {9, 10, 11, 12, 13, 32, 133, 160 :: nat})"

definition py_int :: "string \<Rightarrow> error + int" where
  "py_int s =
     (case rev (dropWhile py_int_space (rev (dropWhile py_int_space s))) of
        [] \<Rightarrow> Inl ValueError
      | c # r \<Rightarrow>
          if c = CHR ''-'' then
            (case py_digits 0 False r of None \<Rightarrow> Inl ValueError | Some n \<Rightarrow> Inr (- int n))
          else if c = CHR ''+'' then
            (case py_digits 0 False r of None \<Rightarrow> Inl ValueError | Some n \<Rightarrow> Inr (int n))
          else
            (case py_digits 0 False (c # r) of None \<Rightarrow> Inl ValueError | Some n \<Rightarrow> Inr (int n)))"

text \<open>
  \<^verbatim>\<open>sorted(xs, key=f, reverse=True)\<close>: CPython reverses the list, sorts it stably in
  ascending order and reverses the result, so that equal keys keep their original order.
  Strings are compared code point by code point, a proper prefix being smaller, which is
  the order of \<open>char list\<close>.
\<close>

definition py_sorted_reverse :: "('a \<Rightarrow> string) \<Rightarrow> 'a list \<Rightarrow> 'a list" where
  "py_sorted_reverse f xs = rev (sort_key f (rev xs))"

section \<open>The catalog resolver: \<^verbatim>\<open>get_update\<close>\<close>

text \<open>
  The dict built for one catalog line. \<^verbatim>\<open>DownloadMacOS\<close> stores the size as an
  integer, \<^verbatim>\<open>macOSReleaseProvider\<close> as the string it read.
\<close>

record 'a update =
  name :: string
  version :: string
  size :: 'a

text \<open>
  What \<^verbatim>\<open>subprocess.run([...], stdout=subprocess.PIPE)\<close> gave: it raised, or it
  completed with an exit status and an output; the output is held as the result of
  \<^verbatim>\<open>result.stdout.decode()\<close>, \<open>None\<close> when decoding raises.
\<close>

datatype run_result = RunFailed string | Completed int "string option"

text \<open>\<^verbatim>\<open>[s.split(':')[1].strip() for s in segments]\<close>\<close>

fun update_info :: "string list \<Rightarrow> error + string list" where
  "update_info [] = Inr []"
| "update_info (s # ss) =
     (case py_split CHR '':'' s of
        a # b # rest \<Rightarrow>
          (case update_info ss of
             Inl e \<Rightarrow> Inl e
           | Inr r \<Rightarrow> Inr (py_strip b # r))
      | _ \<Rightarrow> Inl IndexError)"

text \<open>
  The body of the loop for one line that contains \<^verbatim>\<open>"Version"\<close>; \<open>conv\<close> is
  what the processor does with the third field.
\<close>

definition parse_line :: "(string \<Rightarrow> error + 'a) \<Rightarrow> string \<Rightarrow> error + 'a update" where
  "parse_line conv line =
     (case update_info (py_split CHR '','' line) of
        Inl e \<Rightarrow> Inl e
      | Inr info \<Rightarrow>
          (case info of
             n # v # s # rest \<Rightarrow>
               (case conv s of
                  Inl e \<Rightarrow> Inl e
                | Inr sz \<Rightarrow> Inr \<lparr>name = n, version = v, size = sz\<rparr>)
           | _ \<Rightarrow> Inl IndexError))"

text \<open>The loop over the lines of the output: the first exception ends it.\<close>

fun parse_updates :: "(string \<Rightarrow> error + 'a) \<Rightarrow> string list \<Rightarrow> error + 'a update list" where
  "parse_updates conv [] = Inr []"
| "parse_updates conv (line # ls) =
     (if py_in ''Version'' line then
        (case parse_line conv line of
           Inl e \<Rightarrow> Inl e
         | Inr u \<Rightarrow>
             (case parse_updates conv ls of
                Inl e \<Rightarrow> Inl e
              | Inr us \<Rightarrow> Inr (u # us)))
      else parse_updates conv ls)"

text \<open>
  The part of \<^verbatim>\<open>get_update\<close> that the two processors share. \<open>msg\<close> is the message
  of the error for an empty list, \<open>verbose\<close> is \<^verbatim>\<open>self.env['verbose']\<close>, \<open>None\<close>
  when the key is absent. The messages passed to \<^verbatim>\<open>self.output\<close> are not modelled.
\<close>

definition get_update :: "(string \<Rightarrow> error + 'a) \<Rightarrow> string \<Rightarrow> int option \<Rightarrow> run_result
    \<Rightarrow> error + 'a update" where
  "get_update conv msg verbose run =
     (case run of
        RunFailed err \<Rightarrow> Inl (ProcessorError err)
      | Completed returncode out \<Rightarrow>
          (case out of
             None \<Rightarrow> Inl UnicodeDecodeError
           | Some text \<Rightarrow>
               (case parse_updates conv (py_split (CHR 0x0A) text) of
                  Inl e \<Rightarrow> Inl e
                | Inr update_list \<Rightarrow>
                    if update_list = [] then Inl (ProcessorError msg)
                    else
                      (case py_sorted_reverse version update_list of
                         [] \<Rightarrow> Inl IndexError
                       | u # rest \<Rightarrow>
                           (case verbose of
                              None \<Rightarrow> Inl KeyError
                            | Some v \<Rightarrow> Inr u)))))"

text \<open>\<^verbatim>\<open>int(update_info[2].rstrip('K')) * 1000\<close>\<close>

definition size_bytes :: "string \<Rightarrow> error + int" where
  "size_bytes s =
     (case py_int (py_rstrip CHR ''K'' s) of
        Inl e \<Rightarrow> Inl e
      | Inr n \<Rightarrow> Inr (n * 1000))"

text \<open>\<^verbatim>\<open>DownloadMacOS.get_update\<close>\<close>

definition DownloadMacOS_get_update :: "int option \<Rightarrow> run_result \<Rightarrow> error + int update" where
  "DownloadMacOS_get_update = get_update size_bytes ''No updates have been found''"

text \<open>\<^verbatim>\<open>macOSReleaseProvider.get_update\<close>\<close>

definition macOSReleaseProvider_get_update ::
    "int option \<Rightarrow> run_result \<Rightarrow> error + string update" where
  "macOSReleaseProvider_get_update = get_update Inr ''Could not receive or parse updates''"


section \<open>Shapes of a catalog line and the order on dotted versions\<close>

text \<open>
  A line splits into at least three comma-separated segments and every segment holds
  a colon.
\<close>

definition three_colon_segments :: "string \<Rightarrow> bool" where
  "three_colon_segments line =
     (let segs = py_split CHR '','' line
      in 3 \<le> length segs \<and> (\<forall>s \<in> set segs. CHR '':'' \<in> set s))"

text \<open>The third value of a line: what follows the first colon of the third segment.\<close>

definition size_field :: "string \<Rightarrow> string option" where
  "size_field line =
     (case py_split CHR '','' line of
        a # b # c # rest \<Rightarrow>
          (case py_split CHR '':'' c of
             x # y # others \<Rightarrow> Some (py_strip y)
           | _ \<Rightarrow> None)
      | _ \<Rightarrow> None)"

text \<open>The third value, with its trailing \<^verbatim>\<open>K\<close>s dropped, reads as an integer.\<close>

definition size_is_integer :: "string \<Rightarrow> bool" where
  "size_is_integer line =
     (case size_field line of
        None \<Rightarrow> False
      | Some s \<Rightarrow> (case py_int (py_rstrip CHR ''K'' s) of Inl e \<Rightarrow> False | Inr n \<Rightarrow> True))"

text \<open>
  The order the specification names for versions: the components between dots are
  compared as numbers, a missing trailing component counting as zero. The source does
  not use it in \<^verbatim>\<open>get_update\<close>; it is here to compare the source's choice with.
\<close>

fun digits_value :: "nat \<Rightarrow> string \<Rightarrow> nat" where
  "digits_value acc [] = acc"
| "digits_value acc (c # cs) = digits_value (10 * acc + (of_char c - 48)) cs"

definition dotted_components :: "string \<Rightarrow> nat list" where
  "dotted_components v = map (digits_value 0) (py_split CHR ''.'' v)"

fun dotted_less :: "nat list \<Rightarrow> nat list \<Rightarrow> bool" where
  "dotted_less [] [] = False"
| "dotted_less [] (y # ys) = (0 < y \<or> dotted_less [] ys)"
| "dotted_less (x # xs) [] = False"
| "dotted_less (x # xs) (y # ys) = (x < y \<or> (x = y \<and> dotted_less xs ys))"

section \<open>The host: files, the disk-image utility, external commands\<close>

text \<open>
  Everything outside the processors is held in one record. The file system is an
  association list from paths to kinds, \<open>images\<close> is what \<^verbatim>\<open>hdiutil info -plist\<close>
  lists, \<open>trace\<close> records every external command and every change of the file system
  in the order the processors asked for them. The remaining fields say how the tools
  answer: whether \<^verbatim>\<open>hdiutil info\<close> succeeds, what \<^verbatim>\<open>hdiutil attach\<close> prints for an
  image (\<open>None\<close> when the command or the parsing of its output fails), whether
  \<^verbatim>\<open>hdiutil detach\<close> succeeds for a mount point, what reading
  \<^verbatim>\<open>Assets[0]['OSVersion']\<close> from a property list gives (\<open>None\<close> for any exception),
  what the inherited \<^verbatim>\<open>get_plist_key\<close> gives (it is not defined in these classes),
  what \<^verbatim>\<open>softwareupdate --fetch-full-installer\<close> puts on the disk (\<open>Inl\<close> when
  \<^verbatim>\<open>subprocess.run\<close> raises), whether two strings are equal as
  \<^verbatim>\<open>distutils.version.LooseVersion\<close>, whether creating a directory succeeds, and
  which entries of a tree fail to be copied.
\<close>

datatype kind = File | Dir

record entity =
  mount_point :: "string option"

record image =
  image_path :: string
  system_entities :: "entity list"

datatype event =
    HdiutilInfo
  | HdiutilAttach string
  | HdiutilDetach string
  | ReadPlist string
  | FetchFullInstaller string
  | MakeDirs string
  | CopyTree string string

record world =
  fs :: "(string \<times> kind) list"
  images :: "image list"
  trace :: "event list"
  info_ok :: bool
  attach_out :: "string \<Rightarrow> entity list option"
  detach_ok :: "string \<Rightarrow> bool"
  asset_os_version :: "string \<Rightarrow> string option"
  get_plist_key :: "string \<Rightarrow> string \<Rightarrow> error + string"
  fetch_out :: "string \<Rightarrow> string + (string \<times> kind) list"
  loose_version_eq :: "string \<Rightarrow> string \<Rightarrow> error + bool"
  makedirs_ok :: "string \<Rightarrow> bool"
  copy_errors :: "string \<Rightarrow> string \<Rightarrow> string list"

definition log_event :: "event \<Rightarrow> world \<Rightarrow> world" where
  "log_event ev w = w\<lparr>trace := trace w @ [ev]\<rparr>"

text \<open>\<^verbatim>\<open>os.path.join(a, b)\<close> of \<^verbatim>\<open>posixpath\<close>\<close>

definition os_path_join :: "string \<Rightarrow> string \<Rightarrow> string" where
  "os_path_join a b =
     (if take 1 b = ''/'' then b
      else if a = [] \<or> last a = CHR ''/'' then a @ b
      else a @ ''/'' @ b)"

definition os_path_isfile :: "world \<Rightarrow> string \<Rightarrow> bool" where
  "os_path_isfile w p = (map_of (fs w) p = Some File)"

definition os_path_exists :: "world \<Rightarrow> string \<Rightarrow> bool" where
  "os_path_exists w p = (map_of (fs w) p \<noteq> None)"

text \<open>The name of \<open>p\<close> inside the directory \<open>d\<close>, when \<open>p\<close> lies directly in \<open>d\<close>.\<close>

definition child_name :: "string \<Rightarrow> string \<Rightarrow> string option" where
  "child_name d p =
     (let pre = os_path_join d [];
          n = drop (length pre) p
      in if take (length pre) p = pre \<and> n \<noteq> [] \<and> CHR ''/'' \<notin> set n then Some n else None)"

definition os_listdir :: "world \<Rightarrow> string \<Rightarrow> error + string list" where
  "os_listdir w d =
     (if map_of (fs w) d = Some Dir
      then Inr (remdups (List.map_filter (\<lambda>(p, k). child_name d p) (fs w)))
      else Inl OSError)"

text \<open>
  The directories above \<open>p\<close>: its non-empty prefixes that end before a slash. \<open>pre\<close>
  is the part of the path that was read.
\<close>

fun ancestors_from :: "string \<Rightarrow> string \<Rightarrow> string list" where
  "ancestors_from pre [] = []"
| "ancestors_from pre (c # cs) =
     (if c = CHR ''/'' \<and> pre \<noteq> [] then pre # ancestors_from (pre @ [c]) cs
      else ancestors_from (pre @ [c]) cs)"

definition ancestors :: "string \<Rightarrow> string list" where
  "ancestors p = ancestors_from [] p"

definition missing_dirs :: "world \<Rightarrow> string list \<Rightarrow> (string \<times> kind) list" where
  "missing_dirs w ps = map (\<lambda>q. (q, Dir)) (filter (\<lambda>q. \<not> os_path_exists w q) ps)"

text \<open>\<^verbatim>\<open>os.makedirs(p, exist_ok=True)\<close>\<close>

definition os_makedirs :: "world \<Rightarrow> string \<Rightarrow> (error + unit) \<times> world" where
  "os_makedirs w p =
     (let w1 = log_event (MakeDirs p) w
      in if list_ex (os_path_isfile w1) (ancestors p @ [p]) \<or> \<not> makedirs_ok w1 p
         then (Inl OSError, w1)
         else (Inr (), w1\<lparr>fs := fs w1 @ missing_dirs w1 (ancestors p @ [p])\<rparr>))"

text \<open>
  \<^verbatim>\<open>shutil.copytree(src, dst)\<close>: \<^verbatim>\<open>os.scandir(src)\<close> raises unless the source is a
  directory; \<^verbatim>\<open>os.makedirs(dst)\<close> raises when the destination exists, when a path above
  it is a file or when the directory cannot be made; then the entries are copied one by
  one, the failures are collected and an error is raised at the end when there is one.
  A copy that fails so leaves the destination behind, with the entries that were
  copied. \<open>copied\<close> gives the entries below the source their paths below the destination.
\<close>

definition copied :: "string \<Rightarrow> string \<Rightarrow> (string \<times> kind) list \<Rightarrow> (string \<times> kind) list" where
  "copied src dst es =
     map (\<lambda>(p, k). (dst @ drop (length src) p, k))
       (filter (\<lambda>(p, k). take (length src + 1) p = src @ ''/'') es)"

definition shutil_copytree :: "world \<Rightarrow> string \<Rightarrow> string \<Rightarrow> (error + unit) \<times> world" where
  "shutil_copytree w src dst =
     (let w1 = log_event (CopyTree src dst) w
      in if map_of (fs w1) src \<noteq> Some Dir then (Inl OSError, w1)
         else if os_path_exists w1 dst \<or> list_ex (os_path_isfile w1) (ancestors dst)
                 \<or> \<not> makedirs_ok w1 dst
         then (Inl OSError, w1)
         else
           (let errors = copy_errors w1 src dst;
                w2 = w1\<lparr>fs := fs w1 @ missing_dirs w1 (ancestors dst) @ [(dst, Dir)] @
                        copied src dst (filter (\<lambda>(p, k). p \<notin> set errors) (fs w1))\<rparr>
            in if errors = [] then (Inr (), w2) else (Inl OSError, w2)))"

text \<open>Python's truth value of a string or \<^verbatim>\<open>None\<close>.\<close>

definition py_truthy :: "string option \<Rightarrow> bool" where
  "py_truthy x = (case x of None \<Rightarrow> False | Some s \<Rightarrow> s \<noteq> [])"

section \<open>The disk-image helpers\<close>

text \<open>
  \<^verbatim>\<open>get_dmg_mount_point\<close>, \<^verbatim>\<open>mount_dmg\<close>, \<^verbatim>\<open>unmount_dmg\<close>, \<^verbatim>\<open>get_os_version\<close> and
  \<^verbatim>\<open>get_local_installer\<close> are written twice in the source, in \<^verbatim>\<open>DownloadMacOS\<close> and
  in \<^verbatim>\<open>macOSDownloader\<close>, with the same statements; each has one definition here.
  The output of \<^verbatim>\<open>hdiutil\<close> is taken to have the keys the code reads
  (\<^verbatim>\<open>images\<close>, \<^verbatim>\<open>image-path\<close>, \<^verbatim>\<open>system-entities\<close>); the key \<^verbatim>\<open>mount-point\<close> of an
  entity may be absent.
\<close>

text \<open>The inner loop of \<^verbatim>\<open>get_dmg_mount_point\<close>, over the entities of one image.\<close>

fun scan_entities :: "entity list \<Rightarrow> string option" where
  "scan_entities [] = None"
| "scan_entities (info # rest) =
     (case mount_point info of
        Some mp \<Rightarrow> Some mp
      | None \<Rightarrow> scan_entities rest)"

text \<open>The outer loop, over the images that are attached.\<close>

fun scan_mounts :: "image list \<Rightarrow> string \<Rightarrow> string option" where
  "scan_mounts [] path = None"
| "scan_mounts (mount # rest) path =
     (if image_path mount = path then
        (case scan_entities (system_entities mount) of
           Some mp \<Rightarrow> Some mp
         | None \<Rightarrow> scan_mounts rest path)
      else scan_mounts rest path)"

definition get_dmg_mount_point :: "world \<Rightarrow> string \<Rightarrow> (error + string option) \<times> world" where
  "get_dmg_mount_point w path =
     (let w1 = log_event HdiutilInfo w
      in if info_ok w1 then (Inr (scan_mounts (images w1) path), w1)
         else (Inl CalledProcessError, w1))"

text \<open>
  \<^verbatim>\<open>mount_dmg\<close>. A successful attach makes the utility list the image under the path
  it was given, with the entities it printed.
\<close>

definition mount_dmg :: "world \<Rightarrow> string \<Rightarrow> (error + string) \<times> world" where
  "mount_dmg w path =
     (case get_dmg_mount_point w path of
        (Inl e, w1) \<Rightarrow> (Inl e, w1)
      | (Inr existing, w1) \<Rightarrow>
          if py_truthy existing then (Inr (the existing), w1)
          else
            (let w2 = log_event (HdiutilAttach path) w1
             in case attach_out w2 path of
                  None \<Rightarrow> (Inl (ProcessorError (''Could not mount '' @ path)), w2)
                | Some output \<Rightarrow>
                    (let w3 = w2\<lparr>images := images w2 @
                                 [\<lparr>image_path = path, system_entities = output\<rparr>]\<rparr>
                     in case scan_entities output of
                          None \<Rightarrow> (Inl IndexError, w3)
                        | Some mp \<Rightarrow> (Inr mp, w3))))"

text \<open>
  \<^verbatim>\<open>unmount_dmg\<close>: \<^verbatim>\<open>check_output\<close> raises when the detach fails. A successful
  detach removes the images mounted at the path from the utility's list.
\<close>

definition unmount_dmg :: "world \<Rightarrow> string \<Rightarrow> (error + unit) \<times> world" where
  "unmount_dmg w path =
     (let w1 = log_event (HdiutilDetach path) w
      in if detach_ok w1 path
         then (Inr (), w1\<lparr>images :=
                 filter (\<lambda>m. \<not> list_ex (\<lambda>d. mount_point d = Some path) (system_entities m))
                   (images w1)\<rparr>)
         else (Inl CalledProcessError, w1))"

text \<open>The utility lists an image under \<open>path\<close> with an entity mounted at \<open>mp\<close>.\<close>

definition listed_at :: "world \<Rightarrow> string \<Rightarrow> string \<Rightarrow> bool" where
  "listed_at w path mp =
     list_ex (\<lambda>m. image_path m = path
                \<and> list_ex (\<lambda>d. mount_point d = Some mp) (system_entities m))
       (images w)"

text \<open>The path lies below the mount point of an image that is attached.\<close>

definition in_attached_volume :: "world \<Rightarrow> string \<Rightarrow> bool" where
  "in_attached_volume w p =
     list_ex (\<lambda>m. list_ex (\<lambda>d. case mount_point d of
                                   None \<Rightarrow> False
                                 | Some mp \<Rightarrow> mp \<noteq> []
                                     \<and> take (length (os_path_join mp [])) p = os_path_join mp [])
                     (system_entities m))
       (images w)"

text \<open>
  \<^verbatim>\<open>plistlib.readPlist(p)\<close> followed by \<^verbatim>\<open>info['Assets'][0]['OSVersion']\<close>, \<open>None\<close>
  when either raises. The file is inside a disk image, so it is there to read only
  while an image is attached at a mount point above it.
\<close>

definition read_os_version :: "world \<Rightarrow> string \<Rightarrow> string option \<times> world" where
  "read_os_version w p =
     (let w1 = log_event (ReadPlist p) w
      in (if in_attached_volume w1 p then asset_os_version w1 p else None, w1))"

section \<open>The version of an installer and the search for one\<close>

text \<open>
  \<^verbatim>\<open>get_os_version\<close>. In the \<^verbatim>\<open>try\<close> statement the property list is read and the value
  to return is fixed first (the version read, or the empty string when the read raised),
  then the \<^verbatim>\<open>finally\<close> clause runs \<^verbatim>\<open>unmount_dmg\<close>; an exception of that call replaces
  the return.
\<close>

definition get_os_version :: "world \<Rightarrow> string \<Rightarrow> (error + string) \<times> world" where
  "get_os_version w app_path =
     (let installinfo_plist = os_path_join app_path ''Contents/SharedSupport/InstallInfo.plist''
      in if os_path_isfile w installinfo_plist
         then (get_plist_key w installinfo_plist ''System Image Info:version'', w)
         else
           (let sharedsupport_dmg =
                  os_path_join app_path ''Contents/SharedSupport/SharedSupport.dmg''
            in if os_path_isfile w sharedsupport_dmg then
                 (case mount_dmg w sharedsupport_dmg of
                    (Inl e, w1) \<Rightarrow> (Inl e, w1)
                  | (Inr mountpoint, w1) \<Rightarrow>
                      if mountpoint \<noteq> [] then
                        (let info_plist_path =
                               os_path_join
                                 (os_path_join mountpoint ''com_apple_MobileAsset_MacSoftwareUpdate'')
                                 ''com_apple_MobileAsset_MacSoftwareUpdate.xml''
                         in case read_os_version w1 info_plist_path of
                              (info, w2) \<Rightarrow>
                                (let result = (case info of Some v \<Rightarrow> v | None \<Rightarrow> [])
                                 in case unmount_dmg w2 mountpoint of
                                      (Inl e, w3) \<Rightarrow> (Inl e, w3)
                                    | (Inr u, w3) \<Rightarrow> (Inr result, w3)))
                      else (Inr [], w1))
               else (Inr [], w)))"

text \<open>The loop of \<^verbatim>\<open>get_local_installer\<close> over the entries of the directory.\<close>

fun scan_items :: "world \<Rightarrow> string \<Rightarrow> string \<Rightarrow> string list \<Rightarrow> (error + string option) \<times> world" where
  "scan_items w dir ver [] = (Inr None, w)"
| "scan_items w dir ver (item # items) =
     (let item_path = os_path_join dir item;
          startosinstall_path = os_path_join item_path ''Contents/Resources/startosinstall''
      in if os_path_exists w startosinstall_path then
           (case get_os_version w item_path of
              (Inl e, w1) \<Rightarrow> (Inl e, w1)
            | (Inr local_version, w1) \<Rightarrow>
                (case loose_version_eq w1 local_version ver of
                   Inl e \<Rightarrow> (Inl e, w1)
                 | Inr same \<Rightarrow>
                     if same then (Inr (Some item_path), w1)
                     else scan_items w1 dir ver items))
         else scan_items w dir ver items)"

definition get_local_installer :: "world \<Rightarrow> string \<Rightarrow> string \<Rightarrow> (error + string option) \<times> world" where
  "get_local_installer w dir ver =
     (case os_listdir w dir of
        Inl e \<Rightarrow> (Inl e, w)
      | Inr items \<Rightarrow> scan_items w dir ver items)"

section \<open>The cache manager: \<^verbatim>\<open>macOSDownloader\<close>\<close>

text \<open>
  \<^verbatim>\<open>self.env\<close>: the three inputs and the cache root are always set when the
  processor runs; the outputs are unset until the processor writes them.
\<close>

record summary =
  summary_text :: string
  data_release :: string
  data_version :: string
  data_download_path :: string

record env =
  RECIPE_CACHE_DIR :: string
  env_version :: string
  env_release :: string
  env_size :: string
  cache_dir :: "string option"
  pathname :: "string option"
  changed :: "bool option"
  macOSDownloader_summary_result :: "summary option"

text \<open>
  \<^verbatim>\<open>macOSDownloader.download_macos\<close>: the download command is run without a check of
  its exit status, then the applications directory is searched again.
\<close>

definition download_macos :: "env \<Rightarrow> world \<Rightarrow> (error + string) \<times> world" where
  "download_macos e w =
     (let w1 = log_event (FetchFullInstaller (env_version e)) w
      in case fetch_out w1 (env_version e) of
           Inl err \<Rightarrow> (Inl (ProcessorError err), w1)
         | Inr entries \<Rightarrow>
             (case get_local_installer (w1\<lparr>fs := fs w1 @ entries\<rparr>) ''/Applications''
                     (env_version e) of
                (Inl x, w2) \<Rightarrow> (Inl x, w2)
              | (Inr installer, w2) \<Rightarrow>
                  if py_truthy installer then (Inr (the installer), w2)
                  else (Inl (ProcessorError
                          ''Download was not successful or cannot find downloaded item''), w2)))"

definition cache_path_of :: "env \<Rightarrow> string" where
  "cache_path_of e =
     os_path_join (os_path_join (RECIPE_CACHE_DIR e) ''downloads'') (env_version e)"

definition installer_cache_path_of :: "env \<Rightarrow> string" where
  "installer_cache_path_of e =
     os_path_join (cache_path_of e) (''Install '' @ env_release e @ ''.app'')"

text \<open>\<^verbatim>\<open>macOSDownloader.main\<close>\<close>

definition main :: "env \<Rightarrow> world \<Rightarrow> (error + unit) \<times> env \<times> world" where
  "main e w =
     (let cache_path = cache_path_of e;
          installer_cache_path = installer_cache_path_of e;
          e1 = e\<lparr>cache_dir := Some cache_path, pathname := Some installer_cache_path,
                 changed := Some False\<rparr>
      in if os_path_exists w installer_cache_path then (Inr (), e1, w)
         else
           (let e2 = e1\<lparr>changed := Some True\<rparr>
            in case get_local_installer w ''/Applications'' (env_version e2) of
                 (Inl x, w1) \<Rightarrow> (Inl x, e2, w1)
               | (Inr found, w1) \<Rightarrow>
                   (case (if \<not> py_truthy found then
                            (case download_macos e2 w1 of
                               (Inl x, w2) \<Rightarrow> (Inl x, e2, w2)
                             | (Inr p, w2) \<Rightarrow>
                                 (Inr p,
                                  e2\<lparr>macOSDownloader_summary_result := Some
                                       \<lparr>summary_text = ''New version of macOS has been downloaded'',
                                        data_release = env_release e2,
                                        data_version = env_version e2,
                                        data_download_path = installer_cache_path\<rparr>\<rparr>,
                                  w2))
                          else (Inr (the found), e2, w1)) of
                      (Inl x, e3, w2) \<Rightarrow> (Inl x, e3, w2)
                    | (Inr installer, e3, w2) \<Rightarrow>
                        (case os_makedirs w2 cache_path of
                           (Inl x, w3) \<Rightarrow> (Inl x, e3, w3)
                         | (Inr u, w3) \<Rightarrow>
                             (case shutil_copytree w3 installer installer_cache_path of
                                (Inl x, w4) \<Rightarrow> (Inl x, e3, w4)
                              | (Inr u', w4) \<Rightarrow> (Inr (), e3, w4))))))"

text \<open>The number of attach commands in a trace.\<close>

definition attach_count :: "event list \<Rightarrow> nat" where
  "attach_count evs = length (filter (\<lambda>ev. case ev of HdiutilAttach p \<Rightarrow> True | _ \<Rightarrow> False) evs)"



section \<open>Two hosts and an environment to run the processors on\<close>

text \<open>
  A host whose applications directory holds an installer with a direct
  \<^verbatim>\<open>InstallInfo.plist\<close>, and an empty cache under \<^verbatim>\<open>/cache\<close>.
\<close>

definition host_direct :: world where
  "host_direct =
     \<lparr>fs = [(''/Applications'', Dir),
             (''/Applications/Install macOS Monterey.app'', Dir),
             (''/Applications/Install macOS Monterey.app/Contents/Resources/startosinstall'', File),
             (''/Applications/Install macOS Monterey.app/Contents/SharedSupport/InstallInfo.plist'', File),
             (''/cache'', Dir)],
      images = [],
      trace = [],
      info_ok = True,
      attach_out = (\<lambda>p. None),
      detach_ok = (\<lambda>p. True),
      asset_os_version = (\<lambda>p. None),
      get_plist_key = (\<lambda>p k. Inr ''12.3''),
      fetch_out = (\<lambda>v. Inr []),
      loose_version_eq = (\<lambda>a b. Inr (a = b)),
      makedirs_ok = (\<lambda>p. True),
      copy_errors = (\<lambda>s d. [])\<rparr>"

text \<open>
  A host whose installer has no direct descriptor but an embedded
  \<^verbatim>\<open>SharedSupport.dmg\<close>; attaching it gives two entities, the second with a mount point.
\<close>

definition host_dmg :: world where
  "host_dmg =
     \<lparr>fs = [(''/Applications'', Dir),
             (''/Applications/Install macOS Monterey.app'', Dir),
             (''/Applications/Install macOS Monterey.app/Contents/Resources/startosinstall'', File),
             (''/Applications/Install macOS Monterey.app/Contents/SharedSupport/SharedSupport.dmg'', File)],
      images = [],
      trace = [],
      info_ok = True,
      attach_out = (\<lambda>p. Some [\<lparr>mount_point = None\<rparr>,
                                 \<lparr>mount_point = Some ''/Volumes/Shared Support''\<rparr>]),
      detach_ok = (\<lambda>p. True),
      asset_os_version = (\<lambda>p. Some ''12.3''),
      get_plist_key = (\<lambda>p k. Inl KeyError),
      fetch_out = (\<lambda>v. Inr []),
      loose_version_eq = (\<lambda>a b. Inr (a = b)),
      makedirs_ok = (\<lambda>p. True),
      copy_errors = (\<lambda>s d. [])\<rparr>"


text \<open>The same host with the support image attached already.\<close>

definition host_dmg_attached :: world where
  "host_dmg_attached =
     host_dmg\<lparr>images :=
       [\<lparr>image_path =
           ''/Applications/Install macOS Monterey.app/Contents/SharedSupport/SharedSupport.dmg'',
         system_entities = [\<lparr>mount_point = Some ''/Volumes/Shared Support''\<rparr>]\<rparr>]\<rparr>"


text \<open>The inputs that \<^verbatim>\<open>macOSReleaseProvider\<close> hands to \<^verbatim>\<open>macOSDownloader\<close>.\<close>

definition env_monterey :: env where
  "env_monterey =
     \<lparr>RECIPE_CACHE_DIR = ''/cache'',
      env_version = ''12.3'',
      env_release = ''macOS Monterey'',
      env_size = ''9453092K'',
      cache_dir = None,
      pathname = None,
      changed = None,
      macOSDownloader_summary_result = None\<rparr>"

section \<open>Properties of the catalog resolver\<close>

lemmas py_eval = py_strip_def py_isspace_def py_int_def py_int_space_def py_rstrip_def
  is_digit_def
  parse_line_def size_bytes_def

lemma py_split_not_Nil: "py_split c s \<noteq> []"
  by (induction s) (auto split: list.splits)

lemma py_split_has_sep:
  "(\<exists>a b rest. py_split c s = a # b # rest) \<longleftrightarrow> c \<in> set s"
  by (induction s) (auto simp: py_split_not_Nil split: list.splits)

lemma update_info_error: "update_info ss = Inl e \<Longrightarrow> e = IndexError"
  by (induction ss arbitrary: e) (auto split: list.splits sum.splits)

lemma update_info_ok:
  "(\<exists>r. update_info ss = Inr r) \<longleftrightarrow> (\<forall>s \<in> set ss. CHR '':'' \<in> set s)"
proof (induction ss)
  case Nil
  show ?case by simp
next
  case (Cons s ss)
  show ?case
  proof (cases "CHR '':'' \<in> set s")
    case True
    then obtain a b rest where "py_split CHR '':'' s = a # b # rest"
      using py_split_has_sep by blast
    with True Cons show ?thesis
      by (auto split: sum.splits)
  next
    case False
    then have "\<not> (\<exists>a b rest. py_split CHR '':'' s = a # b # rest)"
      using py_split_has_sep by blast
    then have "update_info (s # ss) = Inl IndexError"
      by (auto split: list.splits)
    with False show ?thesis by simp
  qed
qed

lemma update_info_length: "update_info ss = Inr r \<Longrightarrow> length r = length ss"
  by (induction ss arbitrary: r) (auto split: list.splits sum.splits)

lemma parse_line_raw_error: "parse_line Inr line = Inl e \<Longrightarrow> e = IndexError"
  by (auto simp: parse_line_def split: sum.splits list.splits dest: update_info_error)

lemma size_bytes_error: "size_bytes s = Inl e \<Longrightarrow> e = ValueError"
  by (auto simp: size_bytes_def py_int_def split: sum.splits list.splits if_splits option.splits)

lemma parse_line_bytes_error:
  "parse_line size_bytes line = Inl e \<Longrightarrow> e = IndexError \<or> e = ValueError"
  by (auto simp: parse_line_def split: sum.splits list.splits
      dest: update_info_error size_bytes_error)

lemma parse_line_raw_ok:
  "(\<exists>u. parse_line Inr line = Inr u) \<longleftrightarrow> three_colon_segments line"
proof
  assume "\<exists>u. parse_line Inr line = Inr u"
  then obtain r where r: "update_info (py_split CHR '','' line) = Inr r" and "3 \<le> length r"
    by (auto simp: parse_line_def split: sum.splits list.splits)
  then show "three_colon_segments line"
    using update_info_ok [of "py_split CHR '','' line"] update_info_length [OF r]
    by (auto simp: three_colon_segments_def Let_def)
next
  assume t: "three_colon_segments line"
  then obtain r where r: "update_info (py_split CHR '','' line) = Inr r"
    using update_info_ok [of "py_split CHR '','' line"]
    by (auto simp: three_colon_segments_def Let_def)
  with t have "3 \<le> length r"
    using update_info_length [OF r] by (simp add: three_colon_segments_def Let_def)
  then obtain n v s rest where "r = n # v # s # rest"
    by (cases r; cases "tl r"; cases "tl (tl r)") auto
  with r show "\<exists>u. parse_line Inr line = Inr u"
    by (simp add: parse_line_def)
qed


lemma parse_line_bytes_ok:
  "(\<exists>u. parse_line size_bytes line = Inr u) \<longleftrightarrow>
     (three_colon_segments line \<and> size_is_integer line)"
proof
  assume "\<exists>u. parse_line size_bytes line = Inr u"
  then obtain u where u: "parse_line size_bytes line = Inr u" ..
  then obtain r n v s rest sz where r: "update_info (py_split CHR '','' line) = Inr r"
    and rr: "r = n # v # s # rest" and sz: "size_bytes s = Inr sz"
    by (auto simp: parse_line_def split: sum.splits list.splits)
  from r rr have "parse_line Inr line = Inr \<lparr>name = n, version = v, size = s\<rparr>"
    by (simp add: parse_line_def)
  then have t: "three_colon_segments line"
    using parse_line_raw_ok by blast
  from r rr have len: "length (py_split CHR '','' line) = length (n # v # s # rest)"
    using update_info_length by fastforce
  then obtain a b c others where segs: "py_split CHR '','' line = a # b # c # others"
    by (cases "py_split CHR '','' line"; cases "tl (py_split CHR '','' line)";
        cases "tl (tl (py_split CHR '','' line))") auto
  with r rr have "\<exists>x y others. py_split CHR '':'' c = x # y # others \<and> s = py_strip y"
    by (auto split: list.splits sum.splits)
  with segs sz have "size_is_integer line"
    by (auto simp: size_is_integer_def size_field_def size_bytes_def split: sum.splits)
  with t show "three_colon_segments line \<and> size_is_integer line" ..
next
  assume a: "three_colon_segments line \<and> size_is_integer line"
  then obtain u where "parse_line Inr line = Inr u"
    using parse_line_raw_ok by blast
  then obtain r n v s rest where r: "update_info (py_split CHR '','' line) = Inr r"
    and rr: "r = n # v # s # rest"
    by (auto simp: parse_line_def split: sum.splits list.splits)
  from r rr have len: "length (py_split CHR '','' line) = length (n # v # s # rest)"
    using update_info_length by fastforce
  then obtain a b c others where segs: "py_split CHR '','' line = a # b # c # others"
    by (cases "py_split CHR '','' line"; cases "tl (py_split CHR '','' line)";
        cases "tl (tl (py_split CHR '','' line))") auto
  with r rr have "\<exists>x y others. py_split CHR '':'' c = x # y # others \<and> s = py_strip y"
    by (auto split: list.splits sum.splits)
  with segs a have "\<exists>k. py_int (py_rstrip CHR ''K'' s) = Inr k"
    by (cases "py_int (py_rstrip CHR ''K'' s)")
       (auto simp: size_is_integer_def size_field_def)
  with r rr show "\<exists>u. parse_line size_bytes line = Inr u"
    by (auto simp: parse_line_def size_bytes_def)
qed

lemma parse_updates_no_marker:
  "\<forall>line \<in> set ls. \<not> py_in ''Version'' line \<Longrightarrow> parse_updates conv ls = Inr []"
  by (induction ls) simp_all

lemma parse_updates_raises:
  assumes "line \<in> set ls" and "py_in ''Version'' line" and "parse_line conv line = Inl e"
  shows "\<exists>l e'. l \<in> set ls \<and> parse_line conv l = Inl e' \<and> parse_updates conv ls = Inl e'"
  using assms
proof (induction ls)
  case Nil
  then show ?case by simp
next
  case (Cons l ls)
  show ?case
  proof (cases "py_in ''Version'' l")
    case False
    with Cons.prems have "line \<in> set ls" by auto
    with Cons False show ?thesis by auto
  next
    case True
    show ?thesis
    proof (cases "parse_line conv l")
      case (Inl e')
      with True show ?thesis by auto
    next
      case (Inr u)
      with Cons.prems have "line \<in> set ls" by auto
      with Cons Inr True show ?thesis by (auto split: sum.splits)
    qed
  qed
qed

lemma parse_updates_marker_nonempty:
  "line \<in> set ls \<Longrightarrow> py_in ''Version'' line \<Longrightarrow> parse_updates conv ls = Inr us \<Longrightarrow> us \<noteq> []"
  by (induction ls arbitrary: us) (auto split: sum.splits if_splits)


lemma get_update_no_marker:
  "\<forall>line \<in> set (py_split (CHR 0x0A) text). \<not> py_in ''Version'' line \<Longrightarrow>
     get_update conv msg verbose (Completed rc (Some text)) = Inl (ProcessorError msg)"
  by (simp add: get_update_def parse_updates_no_marker)

lemma get_update_raises:
  assumes "line \<in> set (py_split (CHR 0x0A) text)" and "py_in ''Version'' line"
    and "parse_line conv line = Inl e"
  shows "\<exists>l e'. parse_line conv l = Inl e' \<and>
           get_update conv msg verbose (Completed rc (Some text)) = Inl e'"
proof -
  obtain l e' where "parse_line conv l = Inl e'"
    and "parse_updates conv (py_split (CHR 0x0A) text) = Inl e'"
    using parse_updates_raises [OF assms] by blast
  then show ?thesis
    by (auto simp: get_update_def)
qed

lemma monterey_bytes:
  "parse_line size_bytes ''Title: macOS Monterey, Version: 12.3, Size: 9453092K''
     = Inr \<lparr>name = ''macOS Monterey'', version = ''12.3'', size = 9453092000\<rparr>"
  by (simp add: py_eval)

lemma monterey_raw:
  "parse_line Inr ''Title: macOS Monterey, Version: 12.3, Size: 9453092K''
     = Inr \<lparr>name = ''macOS Monterey'', version = ''12.3'', size = ''9453092K''\<rparr>"
  by (simp add: py_eval)

lemma monterey_lines:
  "py_split (CHR 0x0A) ''Title: macOS Monterey, Version: 12.3, Size: 9453092K''
     = [''Title: macOS Monterey, Version: 12.3, Size: 9453092K'']"
  by simp

lemma monterey_marker:
  "py_in ''Version'' ''Title: macOS Monterey, Version: 12.3, Size: 9453092K''"
  by simp

lemma py_sorted_reverse_single: "py_sorted_reverse f [x] = [x]"
  by (simp add: py_sorted_reverse_def)

lemma get_update_monterey:
  assumes "parse_line conv ''Title: macOS Monterey, Version: 12.3, Size: 9453092K'' = Inr u"
  shows "get_update conv msg (Some v)
           (Completed rc (Some ''Title: macOS Monterey, Version: 12.3, Size: 9453092K'')) = Inr u"
  unfolding get_update_def
  by (simp add: monterey_lines monterey_marker assms py_sorted_reverse_single
      del: py_split.simps py_in.simps)

text \<open>
  Claim C8. The catalog line \<^verbatim>\<open>Title: macOS Monterey, Version: 12.3, Size: 9453092K\<close>
  parses to the name \<^verbatim>\<open>macOS Monterey\<close> and the version \<^verbatim>\<open>12.3\<close>, with the size
  9453092000 (the number times 1000) in \<^verbatim>\<open>DownloadMacOS\<close> and the size kept as the
  string \<^verbatim>\<open>9453092K\<close> in \<^verbatim>\<open>macOSReleaseProvider\<close>; \<^verbatim>\<open>get_update\<close> returns that
  record when the line is the whole listing.
\<close>

theorem C8_monterey_line:
  "parse_line size_bytes ''Title: macOS Monterey, Version: 12.3, Size: 9453092K''
     = Inr \<lparr>name = ''macOS Monterey'', version = ''12.3'', size = 9453092000\<rparr>
   \<and> parse_line Inr ''Title: macOS Monterey, Version: 12.3, Size: 9453092K''
     = Inr \<lparr>name = ''macOS Monterey'', version = ''12.3'', size = ''9453092K''\<rparr>
   \<and> DownloadMacOS_get_update (Some v)
       (Completed rc (Some ''Title: macOS Monterey, Version: 12.3, Size: 9453092K''))
     = Inr \<lparr>name = ''macOS Monterey'', version = ''12.3'', size = 9453092000\<rparr>
   \<and> macOSReleaseProvider_get_update (Some v)
       (Completed rc (Some ''Title: macOS Monterey, Version: 12.3, Size: 9453092K''))
     = Inr \<lparr>name = ''macOS Monterey'', version = ''12.3'', size = ''9453092K''\<rparr>"
  using get_update_monterey [OF monterey_bytes] get_update_monterey [OF monterey_raw]
  by (simp only: monterey_bytes monterey_raw DownloadMacOS_get_update_def
      macOSReleaseProvider_get_update_def simp_thms)

text \<open>
  Claim C9. When no line of the listing contains \<^verbatim>\<open>Version\<close>, \<^verbatim>\<open>get_update\<close> raises
  a \<^verbatim>\<open>ProcessorError\<close> saying that no update was found, in both processors, and returns
  no record.
\<close>

theorem C9_no_version_line:
  assumes "\<forall>line \<in> set (py_split (CHR 0x0A) text). \<not> py_in ''Version'' line"
  shows "DownloadMacOS_get_update verbose (Completed rc (Some text))
           = Inl (ProcessorError ''No updates have been found'')
       \<and> macOSReleaseProvider_get_update verbose (Completed rc (Some text))
           = Inl (ProcessorError ''Could not receive or parse updates'')"
  using assms
  by (simp add: DownloadMacOS_get_update_def macOSReleaseProvider_get_update_def
      get_update_no_marker)

text \<open>The hypothesis of C9 holds for a listing of two header lines.\<close>

theorem C9_no_version_line_witness:
  "list_all (\<lambda>line. \<not> py_in ''Version'' line)
     (py_split (CHR 0x0A) ''Software Update Tool\<newline>\<newline>Finding available software'')
   \<and> DownloadMacOS_get_update (Some 0)
       (Completed 0 (Some ''Software Update Tool\<newline>\<newline>Finding available software''))
       = Inl (ProcessorError ''No updates have been found'')
   \<and> macOSReleaseProvider_get_update (Some 0)
       (Completed 0 (Some ''Software Update Tool\<newline>\<newline>Finding available software''))
       = Inl (ProcessorError ''Could not receive or parse updates'')"
proof -
  have h: "\<forall>line \<in> set (py_split (CHR 0x0A) ''Software Update Tool\<newline>\<newline>Finding available software'').
      \<not> py_in ''Version'' line"
    by simp
  show ?thesis
    using h C9_no_version_line [OF h, of "Some 0" 0] by (simp add: list_all_iff)
qed

text \<open>
  Claim C10. A line of the listing that contains \<^verbatim>\<open>Version\<close> but does not split into
  at least three comma-separated segments that all hold a colon makes \<^verbatim>\<open>get_update\<close>
  raise (an \<^verbatim>\<open>IndexError\<close>) instead of skipping the line; in \<^verbatim>\<open>DownloadMacOS\<close> the
  same holds when the third value, its trailing \<^verbatim>\<open>K\<close> dropped, is not an integer
  (an \<^verbatim>\<open>IndexError\<close> or a \<^verbatim>\<open>ValueError\<close>).
\<close>

theorem C10_malformed_line_raises:
  assumes "line \<in> set (py_split (CHR 0x0A) text)" and "py_in ''Version'' line"
  shows "(\<not> three_colon_segments line \<longrightarrow>
            macOSReleaseProvider_get_update verbose (Completed rc (Some text)) = Inl IndexError)
       \<and> (\<not> (three_colon_segments line \<and> size_is_integer line) \<longrightarrow>
            DownloadMacOS_get_update verbose (Completed rc (Some text)) = Inl IndexError
          \<or> DownloadMacOS_get_update verbose (Completed rc (Some text)) = Inl ValueError)"
proof (intro conjI impI)
  assume "\<not> three_colon_segments line"
  then have "\<not> (\<exists>u. parse_line Inr line = Inr u)"
    using parse_line_raw_ok by blast
  then obtain e where "parse_line Inr line = Inl e"
    by (cases "parse_line Inr line") auto
  then obtain l e' where "parse_line Inr l = Inl e'"
    and "get_update Inr ''Could not receive or parse updates'' verbose (Completed rc (Some text))
           = Inl e'"
    using get_update_raises [OF assms] by blast
  then show "macOSReleaseProvider_get_update verbose (Completed rc (Some text)) = Inl IndexError"
    using parse_line_raw_error by (auto simp: macOSReleaseProvider_get_update_def)
next
  assume "\<not> (three_colon_segments line \<and> size_is_integer line)"
  then have "\<not> (\<exists>u. parse_line size_bytes line = Inr u)"
    using parse_line_bytes_ok by blast
  then obtain e where "parse_line size_bytes line = Inl e"
    by (cases "parse_line size_bytes line") auto
  then obtain l e' where "parse_line size_bytes l = Inl e'"
    and "get_update size_bytes ''No updates have been found'' verbose (Completed rc (Some text))
           = Inl e'"
    using get_update_raises [OF assms] by blast
  then show "DownloadMacOS_get_update verbose (Completed rc (Some text)) = Inl IndexError
          \<or> DownloadMacOS_get_update verbose (Completed rc (Some text)) = Inl ValueError"
    using parse_line_bytes_error by (auto simp: DownloadMacOS_get_update_def)
qed


text \<open>The hypotheses of C10 hold for a listing whose second line has two segments.\<close>

theorem C10_malformed_line_raises_witness:
  "''Title: macOS Monterey, Version: 12.3''
      \<in> set (py_split (CHR 0x0A) ''Software Update Tool\<newline>Title: macOS Monterey, Version: 12.3'')
   \<and> py_in ''Version'' ''Title: macOS Monterey, Version: 12.3''
   \<and> \<not> three_colon_segments ''Title: macOS Monterey, Version: 12.3''
   \<and> macOSReleaseProvider_get_update (Some 0)
        (Completed 0 (Some ''Software Update Tool\<newline>Title: macOS Monterey, Version: 12.3''))
       = Inl IndexError
   \<and> (DownloadMacOS_get_update (Some 0)
        (Completed 0 (Some ''Software Update Tool\<newline>Title: macOS Monterey, Version: 12.3''))
       = Inl IndexError
     \<or> DownloadMacOS_get_update (Some 0)
        (Completed 0 (Some ''Software Update Tool\<newline>Title: macOS Monterey, Version: 12.3''))
       = Inl ValueError)"
proof -
  have h1: "''Title: macOS Monterey, Version: 12.3''
      \<in> set (py_split (CHR 0x0A) ''Software Update Tool\<newline>Title: macOS Monterey, Version: 12.3'')"
    by simp
  have h2: "py_in ''Version'' ''Title: macOS Monterey, Version: 12.3''"
    by simp
  have h3: "\<not> three_colon_segments ''Title: macOS Monterey, Version: 12.3''"
    by (simp add: three_colon_segments_def)
  show ?thesis
    using h1 h2 h3 C10_malformed_line_raises [OF h1 h2, of "Some 0" 0] by blast
qed

text \<open>
  Claim C3 says that a listing command that exits with a non-zero status makes
  \<^verbatim>\<open>get_update\<close> fail. It does not: \<^verbatim>\<open>subprocess.run\<close> is called without
  \<^verbatim>\<open>check=True\<close> and the exit status is never read, so a run with status 1 and a
  well-formed line on its output yields a record.
\<close>

theorem C3_nonzero_exit_counterexample:
  "DownloadMacOS_get_update (Some 0)
     (Completed 1 (Some ''Title: macOS Monterey, Version: 12.3, Size: 9453092K''))
     = Inr \<lparr>name = ''macOS Monterey'', version = ''12.3'', size = 9453092000\<rparr>
   \<and> macOSReleaseProvider_get_update (Some 0)
     (Completed 1 (Some ''Title: macOS Monterey, Version: 12.3, Size: 9453092K''))
     = Inr \<lparr>name = ''macOS Monterey'', version = ''12.3'', size = ''9453092K''\<rparr>"
  using get_update_monterey [OF monterey_bytes] get_update_monterey [OF monterey_raw]
  by (simp only: DownloadMacOS_get_update_def macOSReleaseProvider_get_update_def simp_thms)

text \<open>
  Claim C3, amended. When the listing command cannot be executed at all
  (\<^verbatim>\<open>subprocess.run\<close> raises), \<^verbatim>\<open>get_update\<close> fails with a \<^verbatim>\<open>ProcessorError\<close> that
  carries the failure; the exit status of a command that ran is not inspected: the
  result is the same for every status.
\<close>

theorem C3_execution_failure_is_fatal:
  "DownloadMacOS_get_update verbose (RunFailed err) = Inl (ProcessorError err)
   \<and> macOSReleaseProvider_get_update verbose (RunFailed err) = Inl (ProcessorError err)
   \<and> DownloadMacOS_get_update verbose (Completed rc out)
       = DownloadMacOS_get_update verbose (Completed 0 out)
   \<and> macOSReleaseProvider_get_update verbose (Completed rc out)
       = macOSReleaseProvider_get_update verbose (Completed 0 out)"
  by (simp add: DownloadMacOS_get_update_def macOSReleaseProvider_get_update_def get_update_def)

lemma two_lines:
  "py_split (CHR 0x0A)
     ''Title: macOS Monterey, Version: 12.9, Size: 12000000K\<newline>Title: macOS Monterey, Version: 12.10, Size: 12100000K''
   = [''Title: macOS Monterey, Version: 12.9, Size: 12000000K'',
      ''Title: macOS Monterey, Version: 12.10, Size: 12100000K'']"
  by simp

lemma line_12_9_bytes:
  "parse_line size_bytes ''Title: macOS Monterey, Version: 12.9, Size: 12000000K''
     = Inr \<lparr>name = ''macOS Monterey'', version = ''12.9'', size = 12000000000\<rparr>"
  by (simp add: py_eval)

lemma line_12_10_bytes:
  "parse_line size_bytes ''Title: macOS Monterey, Version: 12.10, Size: 12100000K''
     = Inr \<lparr>name = ''macOS Monterey'', version = ''12.10'', size = 12100000000\<rparr>"
  by (simp add: py_eval)

lemma line_12_9_raw:
  "parse_line Inr ''Title: macOS Monterey, Version: 12.9, Size: 12000000K''
     = Inr \<lparr>name = ''macOS Monterey'', version = ''12.9'', size = ''12000000K''\<rparr>"
  by (simp add: py_eval)

lemma line_12_10_raw:
  "parse_line Inr ''Title: macOS Monterey, Version: 12.10, Size: 12100000K''
     = Inr \<lparr>name = ''macOS Monterey'', version = ''12.10'', size = ''12100000K''\<rparr>"
  by (simp add: py_eval)

lemma marker_12_9: "py_in ''Version'' ''Title: macOS Monterey, Version: 12.9, Size: 12000000K''"
  by simp

lemma marker_12_10: "py_in ''Version'' ''Title: macOS Monterey, Version: 12.10, Size: 12100000K''"
  by simp

lemma sorted_12_9_first:
  "py_sorted_reverse version
     [\<lparr>name = n1, version = ''12.9'', size = s1\<rparr>, \<lparr>name = n2, version = ''12.10'', size = s2\<rparr>]
   = [\<lparr>name = n1, version = ''12.9'', size = s1\<rparr>, \<lparr>name = n2, version = ''12.10'', size = s2\<rparr>]"
  by (simp add: py_sorted_reverse_def)

lemma get_update_12_9:
  assumes "parse_line conv ''Title: macOS Monterey, Version: 12.9, Size: 12000000K''
             = Inr \<lparr>name = n1, version = ''12.9'', size = s1\<rparr>"
    and "parse_line conv ''Title: macOS Monterey, Version: 12.10, Size: 12100000K''
             = Inr \<lparr>name = n2, version = ''12.10'', size = s2\<rparr>"
  shows "get_update conv msg (Some v) (Completed rc (Some
     ''Title: macOS Monterey, Version: 12.9, Size: 12000000K\<newline>Title: macOS Monterey, Version: 12.10, Size: 12100000K''))
   = Inr \<lparr>name = n1, version = ''12.9'', size = s1\<rparr>"
  unfolding get_update_def
  by (simp add: two_lines marker_12_9 marker_12_10 assms sorted_12_9_first
      del: py_split.simps py_in.simps)

text \<open>
  Claim C1 asks for the record whose version is the greatest under the comparison of
  dotted numeric components. \<^verbatim>\<open>get_update\<close> sorts on the version strings themselves:
  on a listing with \<^verbatim>\<open>12.9\<close> and \<^verbatim>\<open>12.10\<close> both processors return the record of
  \<^verbatim>\<open>12.9\<close>, which is below \<^verbatim>\<open>12.10\<close> in the dotted order.
\<close>

theorem C1_lexical_sort_selects_12_9:
  "DownloadMacOS_get_update (Some 0) (Completed 0 (Some
     ''Title: macOS Monterey, Version: 12.9, Size: 12000000K\<newline>Title: macOS Monterey, Version: 12.10, Size: 12100000K''))
     = Inr \<lparr>name = ''macOS Monterey'', version = ''12.9'', size = 12000000000\<rparr>
   \<and> macOSReleaseProvider_get_update (Some 0) (Completed 0 (Some
     ''Title: macOS Monterey, Version: 12.9, Size: 12000000K\<newline>Title: macOS Monterey, Version: 12.10, Size: 12100000K''))
     = Inr \<lparr>name = ''macOS Monterey'', version = ''12.9'', size = ''12000000K''\<rparr>
   \<and> dotted_less (dotted_components ''12.9'') (dotted_components ''12.10'')"
proof -
  have "dotted_less (dotted_components ''12.9'') (dotted_components ''12.10'')"
    by (simp add: dotted_components_def)
  then show ?thesis
    using get_update_12_9 [OF line_12_9_bytes line_12_10_bytes]
      get_update_12_9 [OF line_12_9_raw line_12_10_raw]
    by (simp only: DownloadMacOS_get_update_def macOSReleaseProvider_get_update_def simp_thms)
qed

section \<open>Properties of the disk-image helpers and of the version extraction\<close>

lemma log_event_simps [simp]:
  "trace (log_event ev w) = trace w @ [ev]"
  "fs (log_event ev w) = fs w"
  "images (log_event ev w) = images w"
  "info_ok (log_event ev w) = info_ok w"
  "attach_out (log_event ev w) = attach_out w"
  "detach_ok (log_event ev w) = detach_ok w"
  "asset_os_version (log_event ev w) = asset_os_version w"
  "get_plist_key (log_event ev w) = get_plist_key w"
  "fetch_out (log_event ev w) = fetch_out w"
  "loose_version_eq (log_event ev w) = loose_version_eq w"
  "makedirs_ok (log_event ev w) = makedirs_ok w"
  "copy_errors (log_event ev w) = copy_errors w"
  by (simp_all add: log_event_def)

lemma listed_at_iff:
  "listed_at w path mp \<longleftrightarrow>
     (\<exists>m \<in> set (images w). image_path m = path
        \<and> (\<exists>d \<in> set (system_entities m). mount_point d = Some mp))"
  by (simp add: listed_at_def list_ex_iff)

lemma listed_at_log_event [simp]: "listed_at (log_event ev w) path mp = listed_at w path mp"
  by (simp add: listed_at_def)

lemma scan_entities_Some:
  "scan_entities es = Some mp \<Longrightarrow> \<exists>d \<in> set es. mount_point d = Some mp"
  by (induction es) (auto split: option.splits)


lemma scan_mounts_Some:
  "scan_mounts ims path = Some mp \<Longrightarrow>
     \<exists>m \<in> set ims. image_path m = path \<and> scan_entities (system_entities m) = Some mp"
  by (induction ims) (auto split: option.splits if_splits)


lemma scan_mounts_listed:
  "scan_mounts (images w) path = Some mp \<Longrightarrow> listed_at w path mp"
  using scan_mounts_Some [of "images w" path mp] scan_entities_Some
  by (fastforce simp: listed_at_iff)





lemma mount_dmg_reuse:
  assumes "info_ok w" and "scan_mounts (images w) path = Some mp" and "mp \<noteq> []"
  shows "mount_dmg w path = (Inr mp, log_event HdiutilInfo w)"
  using assms by (simp add: mount_dmg_def get_dmg_mount_point_def py_truthy_def)

lemma mount_dmg_cases:
  assumes "mount_dmg w path = (Inr mp, w1)"
  shows "info_ok w \<and>
    ((py_truthy (scan_mounts (images w) path) \<and> scan_mounts (images w) path = Some mp
        \<and> w1 = log_event HdiutilInfo w)
     \<or> (\<not> py_truthy (scan_mounts (images w) path)
        \<and> (\<exists>es. attach_out w path = Some es \<and> scan_entities es = Some mp
             \<and> w1 = (log_event (HdiutilAttach path) (log_event HdiutilInfo w))
                     \<lparr>images := images w @ [\<lparr>image_path = path, system_entities = es\<rparr>]\<rparr>)))"
  using assms
  by (auto simp: mount_dmg_def get_dmg_mount_point_def py_truthy_def Let_def
      split: if_splits option.splits)

lemma mount_dmg_listed:
  assumes "mount_dmg w path = (Inr mp, w1)"
  shows "listed_at w1 path mp"
proof -
  from mount_dmg_cases [OF assms] consider
    (reuse) "scan_mounts (images w) path = Some mp" "w1 = log_event HdiutilInfo w"
  | (attach) es where "scan_entities es = Some mp"
      "w1 = (log_event (HdiutilAttach path) (log_event HdiutilInfo w))
              \<lparr>images := images w @ [\<lparr>image_path = path, system_entities = es\<rparr>]\<rparr>"
    by blast
  then show ?thesis
  proof cases
    case reuse
    then show ?thesis by (simp add: scan_mounts_listed)
  next
    case attach
    from attach(1) obtain d where "d \<in> set es" "mount_point d = Some mp"
      using scan_entities_Some by blast
    with attach(2) show ?thesis
      by (auto simp: listed_at_iff)
  qed
qed

lemma mount_dmg_trace:
  assumes "mount_dmg w path = (Inr mp, w1)"
  shows "trace w1 = trace w @
           (if py_truthy (scan_mounts (images w) path) then [HdiutilInfo]
            else [HdiutilInfo, HdiutilAttach path])"
  using mount_dmg_cases [OF assms] by auto

lemma mount_dmg_oracles:
  "detach_ok (snd (mount_dmg w path)) = detach_ok w"
  "asset_os_version (snd (mount_dmg w path)) = asset_os_version w"
  by (auto simp: mount_dmg_def get_dmg_mount_point_def Let_def split: option.splits)

lemma attach_count_simps [simp]:
  "attach_count [] = 0"
  "attach_count (ev # evs) =
     (case ev of HdiutilAttach p \<Rightarrow> 1 | _ \<Rightarrow> 0) + attach_count evs"
  "attach_count (evs @ evs') = attach_count evs + attach_count evs'"
  by (cases ev; simp add: attach_count_def)+


text \<open>
  Claim C2. When \<^verbatim>\<open>Contents/SharedSupport/InstallInfo.plist\<close> is a file of the bundle,
  \<^verbatim>\<open>get_os_version\<close> returns what \<^verbatim>\<open>get_plist_key\<close> gives for that file and the key
  \<^verbatim>\<open>System Image Info:version\<close>, unchanged, and leaves the host as it was: nothing is
  mounted or unmounted and no command is run.
\<close>

theorem C2_direct_descriptor:
  assumes "os_path_isfile w (os_path_join app_path ''Contents/SharedSupport/InstallInfo.plist'')"
  shows "get_os_version w app_path =
           (get_plist_key w (os_path_join app_path ''Contents/SharedSupport/InstallInfo.plist'')
              ''System Image Info:version'', w)
       \<and> trace (snd (get_os_version w app_path)) = trace w
       \<and> images (snd (get_os_version w app_path)) = images w"
  using assms by (simp add: get_os_version_def)

lemma in_attached_volume_log_event [simp]:
  "in_attached_volume (log_event ev w) p = in_attached_volume w p"
  by (simp add: in_attached_volume_def)

lemma info_plist_path_prefix:
  "take (length (os_path_join mp []))
     (os_path_join (os_path_join mp ''com_apple_MobileAsset_MacSoftwareUpdate'')
        ''com_apple_MobileAsset_MacSoftwareUpdate.xml'')
   = os_path_join mp []"
  by (simp add: os_path_join_def)

lemma info_plist_in_volume:
  assumes "listed_at w path mp" and "mp \<noteq> []"
  shows "in_attached_volume w
           (os_path_join (os_path_join mp ''com_apple_MobileAsset_MacSoftwareUpdate'')
              ''com_apple_MobileAsset_MacSoftwareUpdate.xml'')"
proof -
  from assms(1) obtain m d where "m \<in> set (images w)" "d \<in> set (system_entities m)"
    "mount_point d = Some mp"
    by (auto simp: listed_at_iff)
  with assms(2) show ?thesis
    unfolding in_attached_volume_def list_ex_iff
    using info_plist_path_prefix [of mp] by force
qed

lemma unmount_dmg_result:
  "fst (unmount_dmg w mp) = (if detach_ok w mp then Inr () else Inl CalledProcessError)"
  "trace (snd (unmount_dmg w mp)) = trace w @ [HdiutilDetach mp]"
  by (simp_all add: unmount_dmg_def Let_def)

lemma unmount_dmg_releases:
  "detach_ok w mp \<Longrightarrow> \<not> listed_at (snd (unmount_dmg w mp)) path mp"
  by (auto simp: unmount_dmg_def Let_def listed_at_iff list_ex_iff)

lemma get_os_version_dmg:
  assumes "\<not> os_path_isfile w (os_path_join app_path ''Contents/SharedSupport/InstallInfo.plist'')"
    and "os_path_isfile w (os_path_join app_path ''Contents/SharedSupport/SharedSupport.dmg'')"
    and "mount_dmg w (os_path_join app_path ''Contents/SharedSupport/SharedSupport.dmg'') = (Inr mp, w1)"
    and "mp \<noteq> []"
  shows "get_os_version w app_path =
           (if detach_ok w1 mp
            then Inr (case asset_os_version w1
                        (os_path_join (os_path_join mp ''com_apple_MobileAsset_MacSoftwareUpdate'')
                           ''com_apple_MobileAsset_MacSoftwareUpdate.xml'') of
                        Some v \<Rightarrow> v | None \<Rightarrow> [])
            else Inl CalledProcessError,
            snd (unmount_dmg
                   (log_event (ReadPlist
                      (os_path_join (os_path_join mp ''com_apple_MobileAsset_MacSoftwareUpdate'')
                         ''com_apple_MobileAsset_MacSoftwareUpdate.xml'')) w1) mp))"
proof -
  have "listed_at w1 (os_path_join app_path ''Contents/SharedSupport/SharedSupport.dmg'') mp"
    using assms(3) by (rule mount_dmg_listed)
  then have "in_attached_volume w1
      (os_path_join (os_path_join mp ''com_apple_MobileAsset_MacSoftwareUpdate'')
         ''com_apple_MobileAsset_MacSoftwareUpdate.xml'')"
    using assms(4) by (rule info_plist_in_volume)
  with assms show ?thesis
    by (simp add: get_os_version_def Let_def read_os_version_def unmount_dmg_def
        split: prod.splits)
qed

text \<open>
  Claim C4, amended. In the branch that mounts the support image (no direct descriptor,
  the support image is a file, \<^verbatim>\<open>mount_dmg\<close> has returned a non-empty mount point), a
  detach that fails makes \<^verbatim>\<open>get_os_version\<close> raise the \<^verbatim>\<open>CalledProcessError\<close> of the
  detach in place of the result of the extraction; when the detach succeeds the result
  is that of the extraction: the version read, or the empty string when the read
  failed.
\<close>

theorem C4_detach_failure_propagates:
  assumes "\<not> os_path_isfile w (os_path_join app_path ''Contents/SharedSupport/InstallInfo.plist'')"
    and "os_path_isfile w (os_path_join app_path ''Contents/SharedSupport/SharedSupport.dmg'')"
    and "mount_dmg w (os_path_join app_path ''Contents/SharedSupport/SharedSupport.dmg'') = (Inr mp, w1)"
    and "mp \<noteq> []"
  shows "fst (get_os_version w app_path) =
           (if detach_ok w mp
            then Inr (case asset_os_version w
                        (os_path_join (os_path_join mp ''com_apple_MobileAsset_MacSoftwareUpdate'')
                           ''com_apple_MobileAsset_MacSoftwareUpdate.xml'') of
                        Some v \<Rightarrow> v | None \<Rightarrow> [])
            else Inl CalledProcessError)"
proof -
  have "w1 = snd (mount_dmg w (os_path_join app_path ''Contents/SharedSupport/SharedSupport.dmg''))"
    using assms(3) by simp
  then have "detach_ok w1 = detach_ok w" and "asset_os_version w1 = asset_os_version w"
    by (simp_all add: mount_dmg_oracles)
  then show ?thesis
    using get_os_version_dmg [OF assms] by simp
qed

text \<open>
  Claim C5, amended. For a bundle with no direct descriptor and with an embedded
  support image for which \<^verbatim>\<open>mount_dmg\<close> returns a non-empty mount point:
  \<^verbatim>\<open>mount_dmg\<close> has queried the utility and has attached the image exactly when the
  query gave no mount point for it, or an empty one, and the image is then listed under
  its path at the mount point returned; \<^verbatim>\<open>get_os_version\<close> then reads the asset
  descriptor below that mount point and, after the read, runs \<^verbatim>\<open>unmount_dmg\<close> on the
  mount point exactly once, whether the read succeeded or not; if the detach succeeds
  the result is the version read, or the empty string when the read failed, and the
  image is no longer listed at that mount point; if the detach fails,
  \<^verbatim>\<open>CalledProcessError\<close> is raised to the caller.
\<close>

theorem C5_mount_read_unmount:
  assumes "\<not> os_path_isfile w (os_path_join app_path ''Contents/SharedSupport/InstallInfo.plist'')"
    and "os_path_isfile w (os_path_join app_path ''Contents/SharedSupport/SharedSupport.dmg'')"
    and "mount_dmg w (os_path_join app_path ''Contents/SharedSupport/SharedSupport.dmg'') = (Inr mp, w1)"
    and "mp \<noteq> []"
  shows "listed_at w1 (os_path_join app_path ''Contents/SharedSupport/SharedSupport.dmg'') mp
       \<and> trace w1 = trace w @
           (if py_truthy (scan_mounts (images w)
                  (os_path_join app_path ''Contents/SharedSupport/SharedSupport.dmg''))
            then [HdiutilInfo]
            else [HdiutilInfo,
                  HdiutilAttach (os_path_join app_path ''Contents/SharedSupport/SharedSupport.dmg'')])
       \<and> trace (snd (get_os_version w app_path)) = trace w1 @
           [ReadPlist (os_path_join (os_path_join mp ''com_apple_MobileAsset_MacSoftwareUpdate'')
                         ''com_apple_MobileAsset_MacSoftwareUpdate.xml''),
            HdiutilDetach mp]
       \<and> (detach_ok w mp \<longrightarrow>
            fst (get_os_version w app_path) =
              (case asset_os_version w
                      (os_path_join (os_path_join mp ''com_apple_MobileAsset_MacSoftwareUpdate'')
                         ''com_apple_MobileAsset_MacSoftwareUpdate.xml'') of
                 Some v \<Rightarrow> Inr v | None \<Rightarrow> Inr [])
            \<and> \<not> listed_at (snd (get_os_version w app_path))
                  (os_path_join app_path ''Contents/SharedSupport/SharedSupport.dmg'') mp)
       \<and> (\<not> detach_ok w mp \<longrightarrow> fst (get_os_version w app_path) = Inl CalledProcessError)"
proof -
  let ?dmg = "os_path_join app_path ''Contents/SharedSupport/SharedSupport.dmg''"
  let ?p = "os_path_join (os_path_join mp ''com_apple_MobileAsset_MacSoftwareUpdate'')
              ''com_apple_MobileAsset_MacSoftwareUpdate.xml''"
  have w1: "w1 = snd (mount_dmg w ?dmg)"
    using assms(3) by simp
  then have or: "detach_ok w1 = detach_ok w" "asset_os_version w1 = asset_os_version w"
    by (simp_all add: mount_dmg_oracles)
  have listed: "listed_at w1 ?dmg mp"
    using assms(3) by (rule mount_dmg_listed)
  have tr: "trace w1 = trace w @
           (if py_truthy (scan_mounts (images w) ?dmg) then [HdiutilInfo]
            else [HdiutilInfo, HdiutilAttach ?dmg])"
    using assms(3) by (rule mount_dmg_trace)
  have v: "get_os_version w app_path =
           (if detach_ok w mp
            then Inr (case asset_os_version w ?p of Some v \<Rightarrow> v | None \<Rightarrow> [])
            else Inl CalledProcessError,
            snd (unmount_dmg (log_event (ReadPlist ?p) w1) mp))"
    using get_os_version_dmg [OF assms] or by simp
  have t2: "trace (snd (get_os_version w app_path)) = trace w1 @ [ReadPlist ?p, HdiutilDetach mp]"
    by (simp add: v unmount_dmg_result)
  have rel: "detach_ok w mp \<longrightarrow> \<not> listed_at (snd (get_os_version w app_path)) ?dmg mp"
    using unmount_dmg_releases [of "log_event (ReadPlist ?p) w1" mp ?dmg] or
    by (simp add: v)
  have res: "detach_ok w mp \<longrightarrow>
            fst (get_os_version w app_path) =
              (case asset_os_version w ?p of Some v \<Rightarrow> Inr v | None \<Rightarrow> Inr [])"
    by (simp add: v split: option.splits)
  have err: "\<not> detach_ok w mp \<longrightarrow> fst (get_os_version w app_path) = Inl CalledProcessError"
    by (simp add: v)
  from listed tr t2 rel res err show ?thesis
    by blast
qed

lemma mount_dmg_attach:
  assumes "info_ok w" and "\<not> py_truthy (scan_mounts (images w) path)"
    and "attach_out w path = Some es" and "scan_entities es = Some mp"
  shows "mount_dmg w path =
           (Inr mp, (log_event (HdiutilAttach path) (log_event HdiutilInfo w))
              \<lparr>images := images w @ [\<lparr>image_path = path, system_entities = es\<rparr>]\<rparr>)"
  using assms by (simp add: mount_dmg_def get_dmg_mount_point_def Let_def)

lemma monterey_app_paths:
  "os_path_join ''/Applications/Install macOS Monterey.app''
      ''Contents/SharedSupport/InstallInfo.plist''
     = ''/Applications/Install macOS Monterey.app/Contents/SharedSupport/InstallInfo.plist''"
  "os_path_join ''/Applications/Install macOS Monterey.app''
      ''Contents/SharedSupport/SharedSupport.dmg''
     = ''/Applications/Install macOS Monterey.app/Contents/SharedSupport/SharedSupport.dmg''"
  "os_path_join ''/Applications/Install macOS Monterey.app''
      ''Contents/Resources/startosinstall''
     = ''/Applications/Install macOS Monterey.app/Contents/Resources/startosinstall''"
  "os_path_join ''/Applications'' ''Install macOS Monterey.app''
     = ''/Applications/Install macOS Monterey.app''"
  "os_path_join (os_path_join ''/Volumes/Shared Support''
      ''com_apple_MobileAsset_MacSoftwareUpdate'') ''com_apple_MobileAsset_MacSoftwareUpdate.xml''
     = ''/Volumes/Shared Support/com_apple_MobileAsset_MacSoftwareUpdate/com_apple_MobileAsset_MacSoftwareUpdate.xml''"
  by (simp_all add: os_path_join_def)

lemma host_dmg_files:
  "fs w = fs host_dmg \<Longrightarrow>
     \<not> os_path_isfile w
         ''/Applications/Install macOS Monterey.app/Contents/SharedSupport/InstallInfo.plist''"
  "fs w = fs host_dmg \<Longrightarrow>
     os_path_isfile w
       ''/Applications/Install macOS Monterey.app/Contents/SharedSupport/SharedSupport.dmg''"
  by (simp_all add: os_path_isfile_def host_dmg_def)

lemma host_dmg_mount:
  assumes "info_ok w" and "\<not> py_truthy (scan_mounts (images w) path)"
    and "attach_out w = attach_out host_dmg"
  shows "mount_dmg w path =
           (Inr ''/Volumes/Shared Support'',
            (log_event (HdiutilAttach path) (log_event HdiutilInfo w))
              \<lparr>images := images w @
                 [\<lparr>image_path = path,
                   system_entities = [\<lparr>mount_point = None\<rparr>,
                                      \<lparr>mount_point = Some ''/Volumes/Shared Support''\<rparr>]\<rparr>]\<rparr>)"
  using assms by (intro mount_dmg_attach) (simp_all add: host_dmg_def)

text \<open>
  Claim C4 says that a failing detach is suppressed and the result of the extraction is
  still returned. On a host where the read gives \<^verbatim>\<open>12.3\<close> and the detach fails,
  \<^verbatim>\<open>get_os_version\<close> raises \<^verbatim>\<open>CalledProcessError\<close>: the call in the \<^verbatim>\<open>finally\<close>
  clause has no handler.
\<close>

theorem C4_detach_failure_counterexample:
  "asset_os_version (host_dmg\<lparr>detach_ok := \<lambda>p. False\<rparr>)
     ''/Volumes/Shared Support/com_apple_MobileAsset_MacSoftwareUpdate/com_apple_MobileAsset_MacSoftwareUpdate.xml''
     = Some ''12.3''
   \<and> fst (get_os_version (host_dmg\<lparr>detach_ok := \<lambda>p. False\<rparr>)
          ''/Applications/Install macOS Monterey.app'') = Inl CalledProcessError"
proof -
  let ?w = "host_dmg\<lparr>detach_ok := \<lambda>p. False\<rparr>"
  let ?dmg = "''/Applications/Install macOS Monterey.app/Contents/SharedSupport/SharedSupport.dmg''"
  have m: "mount_dmg ?w ?dmg = (Inr ''/Volumes/Shared Support'', snd (mount_dmg ?w ?dmg))"
    using host_dmg_mount [of ?w ?dmg] by (simp add: host_dmg_def py_truthy_def)
  have "detach_ok (snd (mount_dmg ?w ?dmg)) = detach_ok ?w"
    by (rule mount_dmg_oracles)
  then have "fst (get_os_version ?w ''/Applications/Install macOS Monterey.app'')
       = Inl CalledProcessError"
    using get_os_version_dmg [of ?w "''/Applications/Install macOS Monterey.app''"
        "''/Volumes/Shared Support''" "snd (mount_dmg ?w ?dmg)"] m
    by (simp add: monterey_app_paths host_dmg_files)
  moreover have "asset_os_version ?w
     ''/Volumes/Shared Support/com_apple_MobileAsset_MacSoftwareUpdate/com_apple_MobileAsset_MacSoftwareUpdate.xml''
     = Some ''12.3''"
    by (simp add: host_dmg_def)
  ultimately show ?thesis by simp
qed

text \<open>
  The amended C4 on the host with the support image, with a detach that succeeds and
  with one that fails.
\<close>

theorem C4_detach_failure_propagates_witness:
  "fst (get_os_version host_dmg ''/Applications/Install macOS Monterey.app'') = Inr ''12.3''
   \<and> fst (get_os_version (host_dmg\<lparr>detach_ok := \<lambda>p. False\<rparr>)
          ''/Applications/Install macOS Monterey.app'') = Inl CalledProcessError"
proof -
  let ?w = "host_dmg\<lparr>detach_ok := \<lambda>p. False\<rparr>"
  let ?app = "''/Applications/Install macOS Monterey.app''"
  have m: "mount_dmg host_dmg (os_path_join ?app ''Contents/SharedSupport/SharedSupport.dmg'')
             = (Inr ''/Volumes/Shared Support'',
                snd (mount_dmg host_dmg (os_path_join ?app ''Contents/SharedSupport/SharedSupport.dmg'')))"
    using host_dmg_mount [of host_dmg] by (simp add: host_dmg_def py_truthy_def)
  have m': "mount_dmg ?w (os_path_join ?app ''Contents/SharedSupport/SharedSupport.dmg'')
             = (Inr ''/Volumes/Shared Support'',
                snd (mount_dmg ?w (os_path_join ?app ''Contents/SharedSupport/SharedSupport.dmg'')))"
    using host_dmg_mount [of ?w] by (simp add: host_dmg_def py_truthy_def)
  have f1: "\<not> os_path_isfile host_dmg (os_path_join ?app ''Contents/SharedSupport/InstallInfo.plist'')"
    and f2: "os_path_isfile host_dmg (os_path_join ?app ''Contents/SharedSupport/SharedSupport.dmg'')"
    and f1': "\<not> os_path_isfile ?w (os_path_join ?app ''Contents/SharedSupport/InstallInfo.plist'')"
    and f2': "os_path_isfile ?w (os_path_join ?app ''Contents/SharedSupport/SharedSupport.dmg'')"
    by (simp_all add: monterey_app_paths host_dmg_files)
  have ne: "''/Volumes/Shared Support'' \<noteq> []" by simp
  have "fst (get_os_version host_dmg ?app) = Inr ''12.3''"
    using C4_detach_failure_propagates [OF f1 f2 m ne] by (simp add: host_dmg_def)
  moreover have "fst (get_os_version ?w ?app) = Inl CalledProcessError"
    using C4_detach_failure_propagates [OF f1' f2' m' ne] by (simp add: host_dmg_def)
  ultimately show ?thesis by simp
qed

text \<open>
  Claim C5 says that every failure of the read gives the empty string instead of an
  exception. On a host where the read fails and the detach fails too,
  \<^verbatim>\<open>get_os_version\<close> raises \<^verbatim>\<open>CalledProcessError\<close>.
\<close>

theorem C5_read_and_detach_fail_counterexample:
  "asset_os_version (host_dmg\<lparr>detach_ok := \<lambda>p. False, asset_os_version := \<lambda>p. None\<rparr>)
     ''/Volumes/Shared Support/com_apple_MobileAsset_MacSoftwareUpdate/com_apple_MobileAsset_MacSoftwareUpdate.xml''
     = None
   \<and> fst (get_os_version (host_dmg\<lparr>detach_ok := \<lambda>p. False, asset_os_version := \<lambda>p. None\<rparr>)
          ''/Applications/Install macOS Monterey.app'') = Inl CalledProcessError"
proof -
  let ?w = "host_dmg\<lparr>detach_ok := \<lambda>p. False, asset_os_version := \<lambda>p. None\<rparr>"
  let ?dmg = "''/Applications/Install macOS Monterey.app/Contents/SharedSupport/SharedSupport.dmg''"
  have m: "mount_dmg ?w ?dmg = (Inr ''/Volumes/Shared Support'', snd (mount_dmg ?w ?dmg))"
    using host_dmg_mount [of ?w ?dmg] by (simp add: host_dmg_def py_truthy_def)
  have "detach_ok (snd (mount_dmg ?w ?dmg)) = detach_ok ?w"
    by (rule mount_dmg_oracles)
  then have "fst (get_os_version ?w ''/Applications/Install macOS Monterey.app'')
       = Inl CalledProcessError"
    using get_os_version_dmg [of ?w "''/Applications/Install macOS Monterey.app''"
        "''/Volumes/Shared Support''" "snd (mount_dmg ?w ?dmg)"] m
    by (simp add: monterey_app_paths host_dmg_files)
  then show ?thesis by simp
qed

text \<open>
  The amended C5 twice: on the host with the support image and a read that fails (a
  query, an attach, the read, a detach, and the empty string), and on the host where
  the image is attached already (a query, the read, a detach, the version read, and no
  image left in the list).
\<close>

theorem C5_mount_read_unmount_witness:
  "fst (get_os_version (host_dmg\<lparr>asset_os_version := \<lambda>p. None\<rparr>)
          ''/Applications/Install macOS Monterey.app'') = Inr []
   \<and> trace (snd (get_os_version (host_dmg\<lparr>asset_os_version := \<lambda>p. None\<rparr>)
          ''/Applications/Install macOS Monterey.app''))
       = [HdiutilInfo,
          HdiutilAttach
            ''/Applications/Install macOS Monterey.app/Contents/SharedSupport/SharedSupport.dmg'',
          ReadPlist
            ''/Volumes/Shared Support/com_apple_MobileAsset_MacSoftwareUpdate/com_apple_MobileAsset_MacSoftwareUpdate.xml'',
          HdiutilDetach ''/Volumes/Shared Support'']
   \<and> fst (get_os_version host_dmg_attached ''/Applications/Install macOS Monterey.app'')
       = Inr ''12.3''
   \<and> trace (snd (get_os_version host_dmg_attached ''/Applications/Install macOS Monterey.app''))
       = [HdiutilInfo,
          ReadPlist
            ''/Volumes/Shared Support/com_apple_MobileAsset_MacSoftwareUpdate/com_apple_MobileAsset_MacSoftwareUpdate.xml'',
          HdiutilDetach ''/Volumes/Shared Support'']
   \<and> images (snd (get_os_version host_dmg_attached ''/Applications/Install macOS Monterey.app''))
       = []"
proof -
  let ?w = "host_dmg\<lparr>asset_os_version := \<lambda>p. None\<rparr>"
  let ?a = "host_dmg_attached"
  let ?app = "''/Applications/Install macOS Monterey.app''"
  let ?dmg = "os_path_join ?app ''Contents/SharedSupport/SharedSupport.dmg''"
  have m: "mount_dmg ?w ?dmg = (Inr ''/Volumes/Shared Support'', snd (mount_dmg ?w ?dmg))"
    using host_dmg_mount [of ?w] by (simp add: host_dmg_def py_truthy_def)
  have f1: "\<not> os_path_isfile ?w (os_path_join ?app ''Contents/SharedSupport/InstallInfo.plist'')"
    and f2: "os_path_isfile ?w ?dmg"
    by (simp_all add: monterey_app_paths host_dmg_files)
  have ne: "''/Volumes/Shared Support'' \<noteq> []" by simp
  have first: "fst (get_os_version ?w ?app) = Inr []
     \<and> trace (snd (get_os_version ?w ?app))
       = [HdiutilInfo,
          HdiutilAttach
            ''/Applications/Install macOS Monterey.app/Contents/SharedSupport/SharedSupport.dmg'',
          ReadPlist
            ''/Volumes/Shared Support/com_apple_MobileAsset_MacSoftwareUpdate/com_apple_MobileAsset_MacSoftwareUpdate.xml'',
          HdiutilDetach ''/Volumes/Shared Support'']"
    using C5_mount_read_unmount [OF f1 f2 m ne]
    by (simp add: host_dmg_def monterey_app_paths py_truthy_def)
  have s: "scan_mounts (images ?a) ?dmg = Some ''/Volumes/Shared Support''"
    by (simp add: host_dmg_attached_def monterey_app_paths)
  have ma: "mount_dmg ?a ?dmg = (Inr ''/Volumes/Shared Support'', log_event HdiutilInfo ?a)"
    using s by (intro mount_dmg_reuse) (simp_all add: host_dmg_attached_def host_dmg_def)
  have g1: "\<not> os_path_isfile ?a (os_path_join ?app ''Contents/SharedSupport/InstallInfo.plist'')"
    and g2: "os_path_isfile ?a ?dmg"
    by (simp_all add: monterey_app_paths host_dmg_files host_dmg_attached_def)
  have second: "fst (get_os_version ?a ?app) = Inr ''12.3''
     \<and> trace (snd (get_os_version ?a ?app))
       = [HdiutilInfo,
          ReadPlist
            ''/Volumes/Shared Support/com_apple_MobileAsset_MacSoftwareUpdate/com_apple_MobileAsset_MacSoftwareUpdate.xml'',
          HdiutilDetach ''/Volumes/Shared Support'']"
    using C5_mount_read_unmount [OF g1 g2 ma ne] s
    by (simp add: host_dmg_attached_def host_dmg_def monterey_app_paths py_truthy_def)
  have third: "images (snd (get_os_version ?a ?app)) = []"
    using get_os_version_dmg [OF g1 g2 ma ne]
    by (simp add: unmount_dmg_def Let_def host_dmg_attached_def host_dmg_def)
  from first second third show ?thesis by simp
qed



text \<open>C2 on the host with the direct descriptor.\<close>

theorem C2_direct_descriptor_witness:
  "get_os_version host_direct ''/Applications/Install macOS Monterey.app''
     = (Inr ''12.3'', host_direct)"
proof -
  have f: "os_path_isfile host_direct
     (os_path_join ''/Applications/Install macOS Monterey.app''
        ''Contents/SharedSupport/InstallInfo.plist'')"
    by (simp add: monterey_app_paths os_path_isfile_def host_direct_def)
  have "get_plist_key host_direct
     (os_path_join ''/Applications/Install macOS Monterey.app''
        ''Contents/SharedSupport/InstallInfo.plist'') ''System Image Info:version'' = Inr ''12.3''"
    by (simp add: host_direct_def)
  then show ?thesis
    using C2_direct_descriptor [OF f] by simp
qed

section \<open>Properties of the cache manager\<close>

lemma os_path_exists_iff: "os_path_exists w p \<longleftrightarrow> p \<in> fst ` set (fs w)"
  by (simp add: os_path_exists_def map_of_eq_None_iff)

lemma copytree_creates:
  assumes "shutil_copytree w src dst = (Inr u, w')"
  shows "os_path_exists w' dst"
proof -
  from assms have "(dst, Dir) \<in> set (fs w')"
    by (auto simp: shutil_copytree_def Let_def split: if_splits)
  then have "dst \<in> fst ` set (fs w')"
    by force
  then show ?thesis
    by (simp add: os_path_exists_iff)
qed

lemma copytree_trace: "trace (snd (shutil_copytree w src dst)) = trace w @ [CopyTree src dst]"
  by (simp add: shutil_copytree_def Let_def)

lemma main_cached:
  assumes "os_path_exists w (installer_cache_path_of e)"
  shows "main e w =
           (Inr (),
            e\<lparr>cache_dir := Some (cache_path_of e),
              pathname := Some (installer_cache_path_of e),
              changed := Some False\<rparr>,
            w)"
  using assms by (simp add: main_def Let_def)

lemma main_fresh:
  assumes "\<not> os_path_exists w (installer_cache_path_of e)"
    and "main e w = (Inr (), e1, w1)"
  shows "changed e1 = Some True \<and> os_path_exists w1 (installer_cache_path_of e)
       \<and> (\<exists>src. last (trace w1) = CopyTree src (installer_cache_path_of e))"
proof -
  from assms have "changed e1 = Some True
      \<and> (\<exists>w3 installer. shutil_copytree w3 installer (installer_cache_path_of e) = (Inr (), w1))"
    by (auto simp: main_def Let_def split: prod.splits sum.splits if_splits)
  then obtain w3 installer where e1: "changed e1 = Some True"
    and c: "shutil_copytree w3 installer (installer_cache_path_of e) = (Inr (), w1)"
    by blast
  from c have x: "os_path_exists w1 (installer_cache_path_of e)"
    by (rule copytree_creates)
  from c have "last (trace w1) = CopyTree installer (installer_cache_path_of e)"
    using copytree_trace [of w3 installer "installer_cache_path_of e"] by simp
  with e1 x show ?thesis
    by blast
qed

text \<open>
  Claim C6. When the cached bundle path exists, \<^verbatim>\<open>main\<close> returns at once with
  \<^verbatim>\<open>changed\<close> false and the host untouched (no download, no copy). So when a first run
  that found no cached bundle returns normally, it has set \<^verbatim>\<open>changed\<close> to true and
  ended with the copy into the cache, and a second run for the same cache root, version
  and release on the host it left returns with \<^verbatim>\<open>changed\<close> false and leaves that host
  untouched.
\<close>

theorem C6_cached_bundle_short_circuit:
  "(os_path_exists w (installer_cache_path_of e) \<longrightarrow>
      main e w =
        (Inr (),
         e\<lparr>cache_dir := Some (cache_path_of e),
           pathname := Some (installer_cache_path_of e),
           changed := Some False\<rparr>,
         w))
   \<and> (\<not> os_path_exists w (installer_cache_path_of e) \<and> main e w = (Inr (), e1, w1)
       \<and> RECIPE_CACHE_DIR e' = RECIPE_CACHE_DIR e \<and> env_version e' = env_version e
       \<and> env_release e' = env_release e \<longrightarrow>
      changed e1 = Some True
      \<and> (\<exists>src. last (trace w1) = CopyTree src (installer_cache_path_of e))
      \<and> main e' w1 =
          (Inr (),
           e'\<lparr>cache_dir := Some (cache_path_of e),
              pathname := Some (installer_cache_path_of e),
              changed := Some False\<rparr>,
           w1))"
proof (rule conjI; rule impI)
  assume "os_path_exists w (installer_cache_path_of e)"
  then show "main e w =
        (Inr (),
         e\<lparr>cache_dir := Some (cache_path_of e),
           pathname := Some (installer_cache_path_of e),
           changed := Some False\<rparr>,
         w)"
    by (rule main_cached)
next
  assume a: "\<not> os_path_exists w (installer_cache_path_of e) \<and> main e w = (Inr (), e1, w1)
       \<and> RECIPE_CACHE_DIR e' = RECIPE_CACHE_DIR e \<and> env_version e' = env_version e
       \<and> env_release e' = env_release e"
  then have fresh: "changed e1 = Some True \<and> os_path_exists w1 (installer_cache_path_of e)
       \<and> (\<exists>src. last (trace w1) = CopyTree src (installer_cache_path_of e))"
    using main_fresh by blast
  from a have same: "cache_path_of e' = cache_path_of e"
      "installer_cache_path_of e' = installer_cache_path_of e"
    by (simp_all add: cache_path_of_def installer_cache_path_of_def)
  with fresh have "main e' w1 =
          (Inr (),
           e'\<lparr>cache_dir := Some (cache_path_of e),
              pathname := Some (installer_cache_path_of e),
              changed := Some False\<rparr>,
           w1)"
    using main_cached [of w1 e'] by simp
  with fresh show "changed e1 = Some True
      \<and> (\<exists>src. last (trace w1) = CopyTree src (installer_cache_path_of e))
      \<and> main e' w1 =
          (Inr (),
           e'\<lparr>cache_dir := Some (cache_path_of e),
              pathname := Some (installer_cache_path_of e),
              changed := Some False\<rparr>,
           w1)"
    by blast
qed

lemma env_monterey_paths:
  "cache_path_of env_monterey = ''/cache/downloads/12.3''"
  "installer_cache_path_of env_monterey = ''/cache/downloads/12.3/Install macOS Monterey.app''"
  by (simp_all add: cache_path_of_def installer_cache_path_of_def os_path_join_def env_monterey_def)

lemma host_direct_not_cached:
  "\<not> os_path_exists host_direct ''/cache/downloads/12.3/Install macOS Monterey.app''"
  by (simp add: os_path_exists_def host_direct_def)

lemma host_direct_listdir:
  "os_listdir host_direct ''/Applications'' = Inr [''Install macOS Monterey.app'']"
  by (simp add: os_listdir_def host_direct_def List.map_filter_simps child_name_def
      os_path_join_def)

lemma host_direct_version:
  "get_os_version host_direct ''/Applications/Install macOS Monterey.app''
     = (Inr ''12.3'', host_direct)"
  by (simp add: get_os_version_def monterey_app_paths os_path_isfile_def host_direct_def)

lemma host_direct_local:
  "get_local_installer host_direct ''/Applications'' ''12.3''
     = (Inr (Some ''/Applications/Install macOS Monterey.app''), host_direct)"
proof -
  have "os_path_exists host_direct
     ''/Applications/Install macOS Monterey.app/Contents/Resources/startosinstall''"
    by (simp add: os_path_exists_def host_direct_def)
  moreover have "loose_version_eq host_direct ''12.3'' ''12.3'' = Inr True"
    by (simp add: host_direct_def)
  ultimately show ?thesis
    by (simp add: get_local_installer_def host_direct_listdir monterey_app_paths
        host_direct_version)
qed

lemma ancestors_cache:
  "ancestors ''/cache/downloads/12.3'' = [''/cache'', ''/cache/downloads'']"
  by (simp add: ancestors_def)

lemma host_direct_makedirs:
  "os_makedirs host_direct ''/cache/downloads/12.3''
     = (Inr (), (log_event (MakeDirs ''/cache/downloads/12.3'') host_direct)
         \<lparr>fs := fs host_direct @
            [(''/cache/downloads'', Dir), (''/cache/downloads/12.3'', Dir)]\<rparr>)"
  by (simp add: os_makedirs_def ancestors_cache Let_def missing_dirs_def os_path_exists_def
      os_path_isfile_def host_direct_def)

lemma host_direct_copytree:
  "fst (shutil_copytree
     ((log_event (MakeDirs ''/cache/downloads/12.3'') host_direct)
         \<lparr>fs := fs host_direct @
            [(''/cache/downloads'', Dir), (''/cache/downloads/12.3'', Dir)]\<rparr>)
     ''/Applications/Install macOS Monterey.app''
     ''/cache/downloads/12.3/Install macOS Monterey.app'') = Inr ()"
  by (simp add: shutil_copytree_def Let_def os_path_exists_def os_path_isfile_def
      host_direct_def ancestors_def)

lemma host_direct_main: "fst (main env_monterey host_direct) = Inr ()"
proof -
  have v: "env_version env_monterey = ''12.3''"
    by (simp add: env_monterey_def)
  obtain w4 where c: "shutil_copytree
     ((log_event (MakeDirs ''/cache/downloads/12.3'') host_direct)
         \<lparr>fs := fs host_direct @
            [(''/cache/downloads'', Dir), (''/cache/downloads/12.3'', Dir)]\<rparr>)
     ''/Applications/Install macOS Monterey.app''
     ''/cache/downloads/12.3/Install macOS Monterey.app'' = (Inr (), w4)"
    using host_direct_copytree by (metis prod.collapse)
  show ?thesis
    by (simp add: main_def Let_def env_monterey_paths host_direct_not_cached v
        host_direct_local py_truthy_def host_direct_makedirs c)
qed

text \<open>C6 on the host with the direct descriptor: the first run copies the installer found
  in the applications directory, the second run finds the cached bundle.\<close>

theorem C6_cached_bundle_short_circuit_witness:
  "fst (main env_monterey host_direct) = Inr ()
   \<and> changed (fst (snd (main env_monterey host_direct))) = Some True
   \<and> fst (main env_monterey (snd (snd (main env_monterey host_direct)))) = Inr ()
   \<and> changed (fst (snd (main env_monterey (snd (snd (main env_monterey host_direct))))))
       = Some False
   \<and> trace (snd (snd (main env_monterey (snd (snd (main env_monterey host_direct))))))
       = trace (snd (snd (main env_monterey host_direct)))"
proof -
  let ?e1 = "fst (snd (main env_monterey host_direct))"
  let ?w1 = "snd (snd (main env_monterey host_direct))"
  have m: "main env_monterey host_direct = (Inr (), ?e1, ?w1)"
    using host_direct_main by (simp add: prod_eq_iff)
  have n: "\<not> os_path_exists host_direct (installer_cache_path_of env_monterey)"
    by (simp add: env_monterey_paths host_direct_not_cached)
  have second: "changed ?e1 = Some True
      \<and> main env_monterey ?w1 =
          (Inr (),
           env_monterey\<lparr>cache_dir := Some (cache_path_of env_monterey),
              pathname := Some (installer_cache_path_of env_monterey),
              changed := Some False\<rparr>,
           ?w1)"
    using C6_cached_bundle_short_circuit [of host_direct env_monterey ?e1 ?w1 env_monterey]
      m n
    by simp
  then show ?thesis
    using host_direct_main by simp
qed

end
